theory Spec2Isabelle
  imports Complex_Main "HOL-Library.Word"
begin

unbundle bit_operations_syntax

section \<open>Python values used by the client\<close>

text \<open>
  A Python \<open>str\<close> is modelled as a \<open>string\<close>: one \<open>char\<close> per code point, for the
  code points below 256 (credentials, nonces, commands and hexadecimal digests are ASCII).
  \<open>length\<close> is then Python's \<open>len\<close>. A \<open>bytes\<close> value is a list of 8-bit words.
\<close>

type_synonym byte = "8 word"

text \<open>\<open>str.encode('utf-8')\<close>: one byte below U+0080, two bytes from U+0080 to U+00FF.\<close>

definition encode_utf8_char :: "char \<Rightarrow> byte list" where
  "encode_utf8_char c =
     (let n = (of_char c :: nat)
      in if n < 128 then [of_nat n]
         else [of_nat (192 + n div 64), of_nat (128 + n mod 64)])"

definition encode_utf8 :: "string \<Rightarrow> byte list" where
  "encode_utf8 s = concat (map encode_utf8_char s)"

text \<open>\<open>str(n)\<close> for an integer: decimal digits, with a minus sign below zero.\<close>

fun str_nat :: "nat \<Rightarrow> string" where
  "str_nat n =
     (if n < 10 then [''0123456789'' ! n]
      else str_nat (n div 10) @ [''0123456789'' ! (n mod 10)])"

declare str_nat.simps [simp del]

definition str_int :: "int \<Rightarrow> string" where
  "str_int i = (if i < 0 then CHR ''-'' # str_nat (nat (- i)) else str_nat (nat i))"

text \<open>\<open>sep.join(xs)\<close>.\<close>

fun join :: "string \<Rightarrow> string list \<Rightarrow> string" where
  "join sep [] = []"
| "join sep [x] = x"
| "join sep (x # y # ys) = x @ sep @ join sep (y # ys)"

text \<open>
  \<open>str.upper()\<close> on ASCII text: the letters a to z move to A to Z, every other ASCII
  character stays. The client applies it to a hexadecimal digest only.
\<close>

definition upper_char :: "char \<Rightarrow> char" where
  "upper_char c =
     (let n = (of_char c :: nat)
      in if 97 \<le> n \<and> n \<le> 122 then char_of (n - 32) else c)"

definition upper :: "string \<Rightarrow> string" where
  "upper s = map upper_char s"

section \<open>hashlib.sha256 and hmac\<close>

text \<open>
  The two standard-library calls of the signer, written out: SHA-256 as in FIPS 180-4 and
  the HMAC construction as \<open>hmac.new(key, msg, hashlib.sha256)\<close> computes it.
\<close>

type_synonym w32 = "32 word"

type_synonym hash_state = "w32 \<times> w32 \<times> w32 \<times> w32 \<times> w32 \<times> w32 \<times> w32 \<times> w32"

definition sha256_init :: hash_state where
  "sha256_init =
     (0x6A09E667, 0xBB67AE85, 0x3C6EF372, 0xA54FF53A,
      0x510E527F, 0x9B05688C, 0x1F83D9AB, 0x5BE0CD19)"

definition sha256_k :: "w32 list" where
  "sha256_k =
     [0x428A2F98, 0x71374491, 0xB5C0FBCF, 0xE9B5DBA5, 0x3956C25B, 0x59F111F1, 0x923F82A4,
      0xAB1C5ED5, 0xD807AA98, 0x12835B01, 0x243185BE, 0x550C7DC3, 0x72BE5D74, 0x80DEB1FE,
      0x9BDC06A7, 0xC19BF174, 0xE49B69C1, 0xEFBE4786, 0x0FC19DC6, 0x240CA1CC, 0x2DE92C6F,
      0x4A7484AA, 0x5CB0A9DC, 0x76F988DA, 0x983E5152, 0xA831C66D, 0xB00327C8, 0xBF597FC7,
      0xC6E00BF3, 0xD5A79147, 0x06CA6351, 0x14292967, 0x27B70A85, 0x2E1B2138, 0x4D2C6DFC,
      0x53380D13, 0x650A7354, 0x766A0ABB, 0x81C2C92E, 0x92722C85, 0xA2BFE8A1, 0xA81A664B,
      0xC24B8B70, 0xC76C51A3, 0xD192E819, 0xD6990624, 0xF40E3585, 0x106AA070, 0x19A4C116,
      0x1E376C08, 0x2748774C, 0x34B0BCB5, 0x391C0CB3, 0x4ED8AA4A, 0x5B9CCA4F, 0x682E6FF3,
      0x748F82EE, 0x78A5636F, 0x84C87814, 0x8CC70208, 0x90BEFFFA, 0xA4506CEB, 0xBEF9A3F7,
      0xC67178F2]"

definition be_bytes :: "nat \<Rightarrow> nat \<Rightarrow> byte list" where
  "be_bytes width n = map (\<lambda>i. of_nat (n div 2 ^ (8 * i) mod 256)) (rev [0..<width])"

definition be_word :: "byte list \<Rightarrow> w32" where
  "be_word bs = foldl (\<lambda>acc b. push_bit 8 acc OR ucast b) 0 bs"

definition sha256_pad :: "byte list \<Rightarrow> byte list" where
  "sha256_pad msg =
     msg @ [0x80] @ replicate ((119 - length msg mod 64) mod 64) 0
         @ be_bytes 8 (8 * length msg mod 2 ^ 64)"

definition sha256_schedule :: "byte list \<Rightarrow> w32 list" where
  "sha256_schedule block =
     foldl (\<lambda>w i.
              w @ [w ! (i - 16)
                   + (word_rotr 7 (w ! (i - 15)) XOR word_rotr 18 (w ! (i - 15))
                        XOR drop_bit 3 (w ! (i - 15)))
                   + w ! (i - 7)
                   + (word_rotr 17 (w ! (i - 2)) XOR word_rotr 19 (w ! (i - 2))
                        XOR drop_bit 10 (w ! (i - 2)))])
           (map (\<lambda>j. be_word (take 4 (drop (4 * j) block))) [0..<16])
           [16..<64]"

definition sha256_round :: "hash_state \<Rightarrow> w32 \<times> w32 \<Rightarrow> hash_state" where
  "sha256_round st kw =
     (case st of (a, b, c, d, e, f, g, h) \<Rightarrow>
        (let t1 = h + (word_rotr 6 e XOR word_rotr 11 e XOR word_rotr 25 e)
                    + ((e AND f) XOR (NOT e AND g)) + fst kw + snd kw;
             t2 = (word_rotr 2 a XOR word_rotr 13 a XOR word_rotr 22 a)
                    + ((a AND b) XOR (a AND c) XOR (b AND c))
         in (t1 + t2, a, b, c, d + t1, e, f, g)))"

definition sha256_compress :: "hash_state \<Rightarrow> byte list \<Rightarrow> hash_state" where
  "sha256_compress st block =
     (case (st, foldl sha256_round st (zip sha256_k (sha256_schedule block))) of
        ((a, b, c, d, e, f, g, h), (a', b', c', d', e', f', g', h')) \<Rightarrow>
          (a + a', b + b', c + c', d + d', e + e', f + f', g + g', h + h'))"

definition sha256 :: "byte list \<Rightarrow> byte list" where
  "sha256 msg =
     (let m = sha256_pad msg;
          final = foldl (\<lambda>st i. sha256_compress st (take 64 (drop (64 * i) m)))
                    sha256_init [0..<length m div 64]
      in case final of (a, b, c, d, e, f, g, h) \<Rightarrow>
           concat (map (\<lambda>w. be_bytes 4 (unat w)) [a, b, c, d, e, f, g, h]))"

text \<open>\<open>bytes.ljust(width, fill)\<close>.\<close>

definition ljust :: "byte list \<Rightarrow> nat \<Rightarrow> byte \<Rightarrow> byte list" where
  "ljust bs width fill = bs @ replicate (width - length bs) fill"

text \<open>
  \<open>hmac.new(key, msg, hashlib.sha256).digest()\<close>: a key longer than the block size (64
  bytes) is hashed first, the key is padded with zero bytes to the block size, the inner
  hash runs over the key xor 0x36 followed by the message, the outer hash over the key xor
  0x5C followed by the inner digest.
\<close>

definition hmac_digest :: "byte list \<Rightarrow> byte list \<Rightarrow> byte list" where
  "hmac_digest key msg =
     (let key1 = (if length key > 64 then sha256 key else key);
          key2 = ljust key1 64 0;
          inner = sha256 (map (\<lambda>b. b XOR 0x36) key2 @ msg)
      in sha256 (map (\<lambda>b. b XOR 0x5C) key2 @ inner))"

text \<open>\<open>.hexdigest()\<close>: two lowercase hexadecimal digits per byte.\<close>

definition hexdigest :: "byte list \<Rightarrow> string" where
  "hexdigest bs =
     concat (map (\<lambda>b. [''0123456789abcdef'' ! (unat b div 16),
                        ''0123456789abcdef'' ! (unat b mod 16)]) bs)"

section \<open>Values, dictionaries and the store\<close>

text \<open>
  The values that travel through the client: request parameters and decoded JSON bodies.
  A \<open>dict\<close> is an association list in insertion order, with one entry per key. A
  \<open>float\<close> is the rational number the double stands for.
\<close>

datatype pyval =
    PNone
  | PBool bool
  | PInt int
  | PFloat rat
  | PStr string
  | PList "pyval list"
  | PDict "(string \<times> pyval) list"

type_synonym dict = "(string \<times> pyval) list"

text \<open>\<open>k in d\<close>, \<open>d.get(k, default)\<close>, \<open>d[k] = v\<close> and \<open>d.update(other)\<close>.\<close>

definition dict_contains :: "string \<Rightarrow> dict \<Rightarrow> bool" where
  "dict_contains k d = (map_of d k \<noteq> None)"

definition dict_get :: "dict \<Rightarrow> string \<Rightarrow> pyval \<Rightarrow> pyval" where
  "dict_get d k dflt = (case map_of d k of Some v \<Rightarrow> v | None \<Rightarrow> dflt)"

fun setitem :: "dict \<Rightarrow> string \<Rightarrow> pyval \<Rightarrow> dict" where
  "setitem [] k v = [(k, v)]"
| "setitem ((k', v') # d) k v = (if k' = k then (k, v) # d else (k', v') # setitem d k v)"

definition dict_update :: "dict \<Rightarrow> dict \<Rightarrow> dict" where
  "dict_update d other = foldl (\<lambda>acc kv. setitem acc (fst kv) (snd kv)) d other"

text \<open>\<open>needle in haystack\<close> on two strings.\<close>

fun is_substring :: "string \<Rightarrow> string \<Rightarrow> bool" where
  "is_substring needle [] = (needle = [])"
| "is_substring needle (c # cs) =
     (take (length needle) (c # cs) = needle \<or> is_substring needle cs)"

text \<open>
  A \<open>requests.Response\<close>, as far as the client reads it. \<open>json\<close> is the outcome of
  \<open>response.json()\<close>: the decoded body, or the message of the \<open>JSONDecodeError\<close> it
  raises. \<open>resp_text\<close> is the attribute \<open>text\<close>.
\<close>

record response =
  status_code :: int
  reason :: string
  resp_url :: string
  resp_text :: string
  json :: "string + pyval"

text \<open>
  The exceptions. \<open>ApiResponseError\<close> carries its status code, its message and its data.
  \<open>Timeout\<close>, \<open>HTTPError\<close>, \<open>JSONDecodeError\<close> and \<open>RequestException\<close> are the classes of
  \<open>requests.exceptions\<close> that the handlers tell apart; \<open>RequestException\<close> stands for
  every other subclass (\<open>ConnectionError\<close>, \<open>RetryError\<close>, ...). Their string is \<open>str(e)\<close>.
  \<open>JSONDecodeError\<close> is both a \<open>ValueError\<close> and a \<open>RequestException\<close>.
\<close>

datatype exn =
    NetworkError string
  | InvalidCredentialsError string
  | ApiResponseError int pyval pyval
  | ValueError string
  | TypeError
  | AttributeError
  | Timeout string
  | HTTPError string response
  | JSONDecodeError string
  | RequestException string

text \<open>\<open>response.raise_for_status()\<close> and \<open>response.json()\<close> of \<open>requests\<close>.\<close>

definition raise_for_status :: "response \<Rightarrow> exn option" where
  "raise_for_status r =
     (if 400 \<le> status_code r \<and> status_code r < 500 then
        Some (HTTPError (str_int (status_code r) @ '' Client Error: '' @ reason r
                          @ '' for url: '' @ resp_url r) r)
      else if 500 \<le> status_code r \<and> status_code r < 600 then
        Some (HTTPError (str_int (status_code r) @ '' Server Error: '' @ reason r
                          @ '' for url: '' @ resp_url r) r)
      else None)"

definition response_json :: "response \<Rightarrow> exn + pyval" where
  "response_json r = (case json r of Inl m \<Rightarrow> Inl (JSONDecodeError m) | Inr v \<Rightarrow> Inr v)"

text \<open>\<open>k in v\<close> for a string \<open>k\<close> and any value: key membership in a dict, element
  membership in a list, substring test in a string, \<open>TypeError\<close> otherwise.\<close>

fun py_in :: "string \<Rightarrow> pyval \<Rightarrow> exn + bool" where
  "py_in k (PDict d) = Inr (dict_contains k d)"
| "py_in k (PList xs) = Inr (List.member xs (PStr k))"
| "py_in k (PStr s) = Inr (is_substring k s)"
| "py_in k v = Inl TypeError"

text \<open>
  An outgoing call of \<open>session.get\<close> or \<open>session.post\<close> with its keyword arguments:
  \<open>params\<close> (the query string), \<open>json\<close> (the JSON body), \<open>timeout\<close>.
\<close>

record request =
  req_method :: string
  req_url :: string
  req_headers :: "(string \<times> string) list"
  req_params :: "dict option"
  req_json :: "dict option"
  req_timeout :: "int option"

text \<open>
  The world a call runs in. Three fields are the environment: \<open>clock n\<close> is what the
  \<open>n\<close>-th call of \<open>time.time()\<close> returns, \<open>float_mul\<close> is the product of two doubles as
  Python rounds it, and \<open>net n req\<close> is what the session does with the \<open>n\<close>-th request it
  is given (after the adapter's own retries): a response, or the exception it raises.
  Three fields are state: \<open>cells\<close> holds the dict objects by address, those below
  \<open>next_addr\<close> being allocated; \<open>ticks\<close> counts the clock readings; \<open>sent\<close> lists the
  requests handed to the session so far.
\<close>

record world =
  clock :: "nat \<Rightarrow> rat"
  float_mul :: "rat \<Rightarrow> rat \<Rightarrow> rat"
  net :: "nat \<Rightarrow> request \<Rightarrow> exn + response"
  cells :: "nat \<Rightarrow> dict"
  next_addr :: nat
  ticks :: nat
  sent :: "request list"

definition new_dict :: "dict \<Rightarrow> world \<Rightarrow> nat \<times> world" where
  "new_dict d w =
     (next_addr w, w\<lparr>cells := (cells w)(next_addr w := d), next_addr := Suc (next_addr w)\<rparr>)"

definition time_time :: "world \<Rightarrow> rat \<times> world" where
  "time_time w = (clock w (ticks w), w\<lparr>ticks := Suc (ticks w)\<rparr>)"

text \<open>\<open>int(x)\<close> for a float: truncation towards zero.\<close>

definition int_of_float :: "rat \<Rightarrow> int" where
  "int_of_float x = (if x < 0 then - \<lfloor>- x\<rfloor> else \<lfloor>x\<rfloor>)"

definition session_send :: "request \<Rightarrow> world \<Rightarrow> (exn + response) \<times> world" where
  "session_send req w = (net w (length (sent w)) req, w\<lparr>sent := sent w @ [req]\<rparr>)"

section \<open>The client\<close>

text \<open>\<open>Retry(...)\<close> of urllib3 and the session \<open>create_session_with_retries\<close> builds: the
  adapter mounted on each URL prefix.\<close>

record retry =
  total :: int
  read :: int
  connect :: int
  backoff_factor :: rat
  status_forcelist :: "int list"

record session =
  adapters :: "(string \<times> retry) list"

definition create_session_with_retries :: "int \<Rightarrow> rat \<Rightarrow> session" where
  "create_session_with_retries retries backoff =
     (let retry = \<lparr>total = retries, read = retries, connect = retries,
                   backoff_factor = backoff, status_forcelist = [429, 500, 502, 503, 504]\<rparr>
      in \<lparr>adapters = [(''https://'', retry), (''http://'', retry)]\<rparr>)"

record api =
  username :: string
  api_key :: string
  api_secret :: string
  session :: session

definition ApiResponseError_from_response :: "response \<Rightarrow> exn + exn" where
  "ApiResponseError_from_response r =
     (case response_json r of
        Inl e \<Rightarrow> Inr (ApiResponseError (status_code r) (PStr (resp_text r)) (PStr (resp_text r)))
      | Inr body \<Rightarrow>
          (case body of
             PDict d \<Rightarrow>
               Inr (ApiResponseError (status_code r) (dict_get d ''error'' (PStr (resp_text r))) body)
           | _ \<Rightarrow> Inl AttributeError))"

definition validate_api_credentials :: "string \<Rightarrow> string \<Rightarrow> exn + unit" where
  "validate_api_credentials key secret =
     (if key = [] \<or> secret = [] then
        Inl (InvalidCredentialsError ''API key and secret cannot be empty.'')
      else if length key < 20 \<or> length secret < 20 then
        Inl (InvalidCredentialsError
               ''API key or secret length is too short. Check if they are correct.'')
      else Inr ())"

text \<open>\<open>Api.__init__\<close>: the fields, the validation, then the session (defaults 3 and 0.3).\<close>

definition Api_init :: "string \<Rightarrow> string \<Rightarrow> string \<Rightarrow> exn + api" where
  "Api_init user key secret =
     (case validate_api_credentials key secret of
        Inl e \<Rightarrow> Inl e
      | Inr _ \<Rightarrow>
          Inr \<lparr>username = user, api_key = key, api_secret = secret,
               session = create_session_with_retries 3 (3 / 10)\<rparr>)"

text \<open>\<open>Api._create_signature\<close> (the leading underscore is dropped).\<close>

definition create_signature :: "api \<Rightarrow> string \<Rightarrow> string" where
  "create_signature self nonce =
     (let message = nonce @ username self @ api_key self
      in upper (hexdigest (hmac_digest (encode_utf8 (api_secret self)) (encode_utf8 message))))"

text \<open>\<open>Api._validate_params\<close>.\<close>

definition validate_params :: "string list \<Rightarrow> dict \<Rightarrow> exn + unit" where
  "validate_params required_params provided_params =
     (let missing_params = filter (\<lambda>param. \<not> dict_contains param provided_params) required_params
      in if missing_params \<noteq> [] then
           Inl (ValueError (''Missing required parameters: '' @ join '', '' missing_params))
         else Inr ())"

text \<open>\<open>str(int(time.time() * 1000))\<close>, the expression that makes a nonce.\<close>

definition fresh_nonce :: "world \<Rightarrow> string \<times> world" where
  "fresh_nonce w =
     (let (t, w') = time_time w
      in (str_int (int_of_float (float_mul w t 1000)), w'))"

text \<open>\<open>params or {}\<close>: \<open>None\<close> and an empty dict are both replaced by a new dict.\<close>

definition params_or_empty :: "nat option \<Rightarrow> world \<Rightarrow> nat \<times> world" where
  "params_or_empty params w =
     (case params of
        None \<Rightarrow> new_dict [] w
      | Some a \<Rightarrow> if cells w a = [] then new_dict [] w else (a, w))"

text \<open>The three \<open>except\<close> clauses of \<open>Api._api_request\<close>, in their order.\<close>

fun api_request_except :: "string \<Rightarrow> exn \<Rightarrow> exn" where
  "api_request_except command (Timeout m) =
     NetworkError (''Request to '' @ command @ '' timed out.'')"
| "api_request_except command (HTTPError m r) =
     (case ApiResponseError_from_response r of Inl e \<Rightarrow> e | Inr e \<Rightarrow> e)"
| "api_request_except command (JSONDecodeError m) = NetworkError (''An error occurred: '' @ m)"
| "api_request_except command (RequestException m) = NetworkError (''An error occurred: '' @ m)"
| "api_request_except command e = e"

text \<open>
  \<open>Api._api_request\<close>. \<open>params\<close> is \<open>None\<close> or the address of the caller's dict. The result
  is the decoded body or the exception raised, with the world after the call. Logging is
  left out.
\<close>

definition api_request ::
  "api \<Rightarrow> string \<Rightarrow> nat option \<Rightarrow> string \<Rightarrow> bool \<Rightarrow> string \<Rightarrow> world
     \<Rightarrow> (exn + pyval) \<times> world" where
  "api_request self command params market private method w =
     (let (p, w1) = params_or_empty params w;
          target = ''https://cex.io/api/'' @ command @ ''/'' @ market;
          headers = [(''User-agent'', ''bot-cex.io-'' @ username self),
                     (''Content-Type'', ''application/json'')];
          (checked, w2) =
            (if private then
               (let (nonce, w') = fresh_nonce w1;
                    signature = create_signature self nonce;
                    w'' = w'\<lparr>cells := (cells w')
                            (p := dict_update (cells w' p)
                                    [(''key'', PStr (api_key self)),
                                     (''signature'', PStr signature),
                                     (''nonce'', PStr nonce)])\<rparr>
                in (validate_params [''nonce'', ''key'', ''signature''] (cells w'' p), w''))
             else (Inr (), w1))
      in case checked of
           Inl e \<Rightarrow> (Inl e, w2)
         | Inr _ \<Rightarrow>
             (let req =
                    (if method = ''GET'' then
                       \<lparr>req_method = ''GET'', req_url = target, req_headers = headers,
                        req_params = Some (cells w2 p), req_json = None,
                        req_timeout = Some 30\<rparr>
                     else
                       \<lparr>req_method = ''POST'', req_url = target, req_headers = headers,
                        req_params = None, req_json = Some (cells w2 p),
                        req_timeout = Some 30\<rparr>);
                  (outcome, w3) = session_send req w2;
                  attempt =
                    (case outcome of
                       Inl e \<Rightarrow> Inl e
                     | Inr response \<Rightarrow>
                         (case raise_for_status response of
                            Some e \<Rightarrow> Inl e
                          | None \<Rightarrow>
                              (case response_json response of
                                 Inl e \<Rightarrow>
                                   Inl (ApiResponseError (status_code response)
                                          (PStr ''Invalid JSON response'') PNone)
                               | Inr response_data \<Rightarrow>
                                   (case py_in ''error'' response_data of
                                      Inl e \<Rightarrow> Inl e
                                    | Inr True \<Rightarrow>
                                        (case ApiResponseError_from_response response of
                                           Inl e \<Rightarrow> Inl e
                                         | Inr e \<Rightarrow> Inl e)
                                    | Inr False \<Rightarrow> Inr response_data))))
              in (case attempt of
                    Inl e \<Rightarrow> Inl (api_request_except command e)
                  | Inr response_data \<Rightarrow> Inr response_data,
                  w3)))"

definition api_call ::
  "api \<Rightarrow> string \<Rightarrow> nat option \<Rightarrow> string \<Rightarrow> bool \<Rightarrow> string \<Rightarrow> world
     \<Rightarrow> (exn + pyval) \<times> world" where
  "api_call self command params market private method w =
     api_request self command params market private (if \<not> private then ''GET'' else method) w"

definition public_api_call ::
  "api \<Rightarrow> string \<Rightarrow> string \<Rightarrow> nat option \<Rightarrow> world \<Rightarrow> (exn + pyval) \<times> world" where
  "public_api_call self command market params w =
     api_call self command params market False ''GET'' w"

definition private_api_call ::
  "api \<Rightarrow> string \<Rightarrow> nat option \<Rightarrow> world \<Rightarrow> (exn + pyval) \<times> world" where
  "private_api_call self command params w =
     api_call self command params [] True ''POST'' w"

text \<open>Private endpoints of the facade: one without parameters, and the two that build
  their own authentication fields.\<close>

definition get_balance :: "api \<Rightarrow> world \<Rightarrow> (exn + pyval) \<times> world" where
  "get_balance self w = private_api_call self ''balance'' None w"

definition get_crypto_address :: "api \<Rightarrow> pyval \<Rightarrow> world \<Rightarrow> (exn + pyval) \<times> world" where
  "get_crypto_address self currency w =
     (let (nonce, w1) = fresh_nonce w;
          signature = create_signature self nonce;
          (a, w2) = new_dict [(''key'', PStr (api_key self)),
                              (''signature'', PStr signature),
                              (''nonce'', PStr nonce),
                              (''currency'', currency)] w1
      in private_api_call self ''get_address'' (Some a) w2)"

definition get_all_crypto_addresses ::
  "api \<Rightarrow> pyval \<Rightarrow> world \<Rightarrow> (exn + pyval) \<times> world" where
  "get_all_crypto_addresses self currency w =
     (let (nonce, w1) = fresh_nonce w;
          signature = create_signature self nonce;
          (a, w2) = new_dict [(''key'', PStr (api_key self)),
                              (''signature'', PStr signature),
                              (''nonce'', PStr nonce),
                              (''currency'', currency)] w1
      in private_api_call self ''get_crypto_address'' (Some a) w2)"

text \<open>
  \<open>Api.historical_ohlcv\<close>: a direct GET with its own single \<open>except\<close> clause, which
  catches every \<open>RequestException\<close> (the \<open>JSONDecodeError\<close> of \<open>response.json()\<close> is one
  from \<open>requests\<close> 2.27 on) and formats it with \<open>str(e)\<close>.
\<close>

fun historical_ohlcv_except :: "exn \<Rightarrow> exn" where
  "historical_ohlcv_except (Timeout m) =
     NetworkError (''An error occurred while fetching historical OHLCV data: '' @ m)"
| "historical_ohlcv_except (HTTPError m r) =
     NetworkError (''An error occurred while fetching historical OHLCV data: '' @ m)"
| "historical_ohlcv_except (JSONDecodeError m) =
     NetworkError (''An error occurred while fetching historical OHLCV data: '' @ m)"
| "historical_ohlcv_except (RequestException m) =
     NetworkError (''An error occurred while fetching historical OHLCV data: '' @ m)"
| "historical_ohlcv_except e = e"

definition historical_ohlcv ::
  "api \<Rightarrow> string \<Rightarrow> string \<Rightarrow> string \<Rightarrow> world \<Rightarrow> (exn + pyval) \<times> world" where
  "historical_ohlcv self date symbol1 symbol2 w =
     (let target = ''https://cex.io/api/ohlcv/hd/'' @ date @ ''/'' @ symbol1 @ ''/'' @ symbol2;
          (outcome, w1) =
            session_send \<lparr>req_method = ''GET'', req_url = target,
                          req_headers = [(''Accept'', ''*/*'')], req_params = None,
                          req_json = None, req_timeout = None\<rparr> w;
          attempt =
            (case outcome of
               Inl e \<Rightarrow> Inl e
             | Inr response \<Rightarrow>
                 (case raise_for_status response of
                    Some e \<Rightarrow> Inl e
                  | None \<Rightarrow> response_json response))
      in (case attempt of
            Inl e \<Rightarrow> Inl (historical_ohlcv_except e)
          | Inr v \<Rightarrow> Inr v,
          w1))"

text \<open>The two advisory lengths of the source; no function reads them.\<close>

definition API_KEY_LENGTH :: nat where
  "API_KEY_LENGTH = 26"

definition API_SECRET_LENGTH :: nat where
  "API_SECRET_LENGTH = 27"

section \<open>The session's retries\<close>

text \<open>
  The retry policy of urllib3 and the adapter of \<open>requests\<close> that runs it, as their
  documentation describes them and as far as the session of
  \<open>create_session_with_retries\<close> uses them: the counters \<open>total\<close>, \<open>connect\<close> and \<open>read\<close>,
  the status list, the default set of retried methods and the backoff between tries.
\<close>


















section \<open>Sequences of private calls\<close>

text \<open>
  The private operations one instance can be asked for, and a run of them in order. A
  call that raises leaves the world as it is at the raise, and the run goes on (the caller
  caught the exception).
\<close>

datatype private_op =
    PrivateApiCall string "nat option"
  | GetBalance
  | GetCryptoAddress pyval
  | GetAllCryptoAddresses pyval

fun do_private_op :: "api \<Rightarrow> private_op \<Rightarrow> world \<Rightarrow> (exn + pyval) \<times> world" where
  "do_private_op self (PrivateApiCall command params) w = private_api_call self command params w"
| "do_private_op self GetBalance w = get_balance self w"
| "do_private_op self (GetCryptoAddress currency) w = get_crypto_address self currency w"
| "do_private_op self (GetAllCryptoAddresses currency) w =
     get_all_crypto_addresses self currency w"

fun private_calls :: "api \<Rightarrow> private_op list \<Rightarrow> world \<Rightarrow> world" where
  "private_calls self [] w = w"
| "private_calls self (c # cs) w = private_calls self cs (snd (do_private_op self c w))"

text \<open>The number of times an operation reads the clock, and the readings the nonces of a
  run are made from: each operation's last one.\<close>

fun clock_readings :: "private_op \<Rightarrow> nat" where
  "clock_readings (PrivateApiCall command params) = 1"
| "clock_readings GetBalance = 1"
| "clock_readings (GetCryptoAddress currency) = 2"
| "clock_readings (GetAllCryptoAddresses currency) = 2"

fun nonce_readings :: "private_op list \<Rightarrow> nat \<Rightarrow> nat list" where
  "nonce_readings [] t = []"
| "nonce_readings (c # cs) t =
     (t + clock_readings c - 1) # nonce_readings cs (t + clock_readings c)"

section \<open>What a request carries\<close>

text \<open>
  The parameter set of an outgoing request (the JSON body of a POST, the query of a GET),
  the number of entries it has under a key, and the nonce it carries, read as the integer
  its decimal string denotes.
\<close>

definition request_args :: "request \<Rightarrow> dict" where
  "request_args req =
     (case req_json req of
        Some d \<Rightarrow> d
      | None \<Rightarrow> (case req_params req of Some d \<Rightarrow> d | None \<Rightarrow> []))"

definition count_key :: "string \<Rightarrow> dict \<Rightarrow> nat" where
  "count_key k d = length (filter (\<lambda>kv. fst kv = k) d)"

definition parse_nat :: "string \<Rightarrow> nat" where
  "parse_nat s = foldl (\<lambda>acc c. 10 * acc + (of_char c - 48)) 0 s"

definition parse_int :: "string \<Rightarrow> int" where
  "parse_int s =
     (case s of
        [] \<Rightarrow> 0
      | c # ds \<Rightarrow> if c = CHR ''-'' then - int (parse_nat ds) else int (parse_nat s))"

definition request_nonce :: "request \<Rightarrow> int option" where
  "request_nonce req =
     (case map_of (request_args req) ''nonce'' of
        Some (PStr s) \<Rightarrow> Some (parse_int s)
      | _ \<Rightarrow> None)"

definition sent_nonces :: "world \<Rightarrow> int list" where
  "sent_nonces w = List.map_filter request_nonce (sent w)"

text \<open>The \<open>nonce\<close> parameters of the requests sent so far, as they stand in the requests.\<close>

definition sent_nonce_params :: "world \<Rightarrow> pyval option list" where
  "sent_nonce_params w = map (\<lambda>req. map_of (request_args req) ''nonce'') (sent w)"

text \<open>The dict a caller handed over (\<open>{}\<close> for \<open>None\<close>), the three authentication
  entries of line 107, and the binding of a request's signature to the nonce it carries.\<close>

definition caller_dict :: "nat option \<Rightarrow> world \<Rightarrow> dict" where
  "caller_dict params w = (case params of None \<Rightarrow> [] | Some a \<Rightarrow> cells w a)"

definition auth_fields :: "api \<Rightarrow> string \<Rightarrow> dict" where
  "auth_fields self nonce =
     [(''key'', PStr (api_key self)), (''signature'', PStr (create_signature self nonce)),
      (''nonce'', PStr nonce)]"

definition signature_matches_nonce :: "api \<Rightarrow> request \<Rightarrow> bool" where
  "signature_matches_nonce self req =
     (case map_of (request_args req) ''nonce'' of
        Some (PStr n) \<Rightarrow>
          map_of (request_args req) ''signature'' = Some (PStr (create_signature self n))
      | _ \<Rightarrow> False)"

text \<open>The millisecond count the \<open>n\<close>-th clock reading turns into.\<close>

definition millis_at :: "world \<Rightarrow> nat \<Rightarrow> int" where
  "millis_at w n = int_of_float (float_mul w (clock w n) 1000)"

section \<open>The signer as specified\<close>

text \<open>
  The specification's signer: the HMAC-SHA256 of the message \<open>nonce + identifier + key\<close>
  under the secret, written directly in uppercase hexadecimal.
\<close>

definition hex_upper :: "byte list \<Rightarrow> string" where
  "hex_upper bs =
     concat (map (\<lambda>b. [''0123456789ABCDEF'' ! (unat b div 16),
                        ''0123456789ABCDEF'' ! (unat b mod 16)]) bs)"

definition sign_spec :: "string \<Rightarrow> string \<Rightarrow> string \<Rightarrow> string \<Rightarrow> string" where
  "sign_spec nonce identifier key secret =
     hex_upper (hmac_digest (encode_utf8 secret) (encode_utf8 (nonce @ identifier @ key)))"

section \<open>Example inputs\<close>

definition example_api :: api where
  "example_api =
     \<lparr>username = ''user'', api_key = ''kkkkkkkkkkkkkkkkkkkk'',
      api_secret = ''ssssssssssssssssssss'',
      session = create_session_with_retries 3 (3 / 10)\<rparr>"

text \<open>A world with one caller's dict \<open>{'amnt': 5}\<close> at address 0, an empty one at
  address 1, exact float products, and a session that answers every request alike.\<close>

definition example_world :: "(nat \<Rightarrow> rat) \<Rightarrow> (request \<Rightarrow> exn + response) \<Rightarrow> world" where
  "example_world c n =
     \<lparr>clock = c, float_mul = (*), net = (\<lambda>i. n),
      cells = (\<lambda>a. if a = 0 then [(''amnt'', PInt 5)] else []),
      next_addr = 2, ticks = 0, sent = []\<rparr>"

text \<open>A clock that advances by 2/8192 of a second per reading: it never rewinds, and its
  first four readings lie in one millisecond.\<close>

definition same_millisecond :: "nat \<Rightarrow> rat" where
  "same_millisecond i = 1700000000 + (2 * of_nat i + 1) / 8192"

text \<open>A clock that advances by one second per reading.\<close>

definition one_second_clock :: "nat \<Rightarrow> rat" where
  "one_second_clock i = 1700000000 + of_nat i"

definition no_active_orders :: response where
  "no_active_orders =
     \<lparr>status_code = 200, reason = ''OK'', resp_url = ''https://cex.io/api/open_orders/'',
      resp_text = ''{\"error\": \"no active orders\"}'',
      json = Inr (PDict [(''error'', PStr ''no active orders'')])\<rparr>"

definition plain_ok :: response where
  "plain_ok =
     \<lparr>status_code = 200, reason = ''OK'', resp_url = ''https://cex.io/api/ticker/BTC/USD/'',
      resp_text = ''OK'', json = Inl ''Expecting value: line 1 column 1 (char 0)''\<rparr>"

definition not_found :: response where
  "not_found =
     \<lparr>status_code = 404, reason = ''Not Found'',
      resp_url = ''https://cex.io/api/ohlcv/hd/20240101/BTC/USD'',
      resp_text = ''{\"error\": \"Not found\"}'',
      json = Inr (PDict [(''error'', PStr ''Not found'')])\<rparr>"

text \<open>The same world, where the caller's dict at address 0 holds authentication fields of
  the caller's own making.\<close>

definition caller_auth_world :: world where
  "caller_auth_world =
     (example_world same_millisecond (\<lambda>req. Inr no_active_orders))
       \<lparr>cells := (\<lambda>a. if a = 0
                        then [(''key'', PStr ''mine''), (''signature'', PStr ''ABC''),
                              (''nonce'', PStr ''1'')]
                        else [])\<rparr>"



section \<open>Properties\<close>

subsection \<open>Dictionaries and responses\<close>

lemma map_of_setitem [simp]: "map_of (setitem d k v) = (map_of d)(k \<mapsto> v)"
  by (induction d) (auto simp: fun_eq_iff)

lemma validate_params_auth [simp]:
  "validate_params [''nonce'', ''key'', ''signature'']
     (dict_update d [(''key'', kv), (''signature'', sv), (''nonce'', nv)]) = Inr ()"
  by (simp add: validate_params_def dict_update_def dict_contains_def)

lemma raise_for_status_None:
  "status_code r < 400 \<or> 600 \<le> status_code r \<Longrightarrow> raise_for_status r = None"
  by (auto simp: raise_for_status_def)

lemma keys_setitem: "fst ` set (setitem d k v) = insert k (fst ` set d)"
  by (induction d) force+

lemma distinct_setitem: "distinct (map fst d) \<Longrightarrow> distinct (map fst (setitem d k v))"
  by (induction d) (auto simp: keys_setitem)

lemma count_key_distinct:
  "distinct (map fst d) \<Longrightarrow> count_key k d = (if k \<in> fst ` set d then 1 else 0)"
  by (induction d) (auto simp: count_key_def)

lemma dict_update_auth:
  "map_of (dict_update d (auth_fields self n)) =
     (map_of d)(''key'' \<mapsto> PStr (api_key self),
                ''signature'' \<mapsto> PStr (create_signature self n), ''nonce'' \<mapsto> PStr n)"
  by (simp add: dict_update_def auth_fields_def)

lemma distinct_dict_update_auth:
  "distinct (map fst d) \<Longrightarrow> distinct (map fst (dict_update d (auth_fields self n)))"
  by (simp add: dict_update_def auth_fields_def distinct_setitem)

lemma dict_update_Nil_auth: "dict_update [] (auth_fields self n) = auth_fields self n"
  by (simp add: dict_update_def auth_fields_def)

subsection \<open>What one call of the request function does to the world\<close>

lemma fresh_nonce_eq:
  "fresh_nonce w = (str_int (millis_at w (ticks w)), w\<lparr>ticks := Suc (ticks w)\<rparr>)"
  by (simp add: fresh_nonce_def time_time_def millis_at_def)

lemma api_request_sent:
  "sent (snd (api_request self command params market private method w)) =
     sent w @ [last (sent (snd (api_request self command params market private method w)))]"
  by (simp add: api_request_def params_or_empty_def new_dict_def fresh_nonce_eq
      session_send_def Let_def split: option.splits prod.splits)

lemma api_request_private_args:
  "request_args (last (sent (snd (api_request self command params market True method w)))) =
     dict_update (caller_dict params w) (auth_fields self (str_int (millis_at w (ticks w))))"
  by (simp add: api_request_def params_or_empty_def new_dict_def fresh_nonce_eq
      session_send_def Let_def request_args_def caller_dict_def auth_fields_def millis_at_def
      split: option.splits prod.splits)

lemma api_request_public_args:
  "request_args (last (sent (snd (api_request self command params market False method w)))) =
     caller_dict params w"
  by (simp add: api_request_def params_or_empty_def new_dict_def
      session_send_def Let_def request_args_def caller_dict_def
      split: option.splits prod.splits)

lemma api_request_private_cells:
  "cells (snd (api_request self command params market True method w)) =
     (cells w)
       ((if params = None \<or> cells w (the params) = [] then next_addr w else the params) :=
          dict_update (caller_dict params w) (auth_fields self (str_int (millis_at w (ticks w)))))"
  by (auto simp add: api_request_def params_or_empty_def new_dict_def fresh_nonce_eq
      session_send_def Let_def auth_fields_def millis_at_def caller_dict_def
      split: option.splits prod.splits)

lemma api_request_private_next_addr:
  "next_addr (snd (api_request self command params market True method w)) =
     (if params = None \<or> cells w (the params) = [] then Suc (next_addr w) else next_addr w)"
  by (simp add: api_request_def params_or_empty_def new_dict_def fresh_nonce_eq
      session_send_def Let_def
      split: option.splits prod.splits)

lemma api_request_env:
  "clock (snd (api_request self command params market private method w)) = clock w"
  "float_mul (snd (api_request self command params market private method w)) = float_mul w"
  "net (snd (api_request self command params market private method w)) = net w"
  "ticks (snd (api_request self command params market private method w)) =
     (if private then Suc (ticks w) else ticks w)"
  by (simp_all add: api_request_def params_or_empty_def new_dict_def fresh_nonce_eq
      session_send_def Let_def
      split: option.splits prod.splits)

subsection \<open>Credentials\<close>

text \<open>
  C6. Construction fails with \<open>InvalidCredentialsError\<close> when the key or the secret is
  empty or shorter than the floor of 20 characters, and succeeds, returning the instance
  with its session, for every pair at or above the floor, whatever its lengths otherwise
  (the advisory lengths 26 and 27 are not checked). The constructor is a function of its
  three arguments alone: it has no world to send a request into.
\<close>

theorem Api_init_credentials:
  "(key = [] \<or> secret = [] \<longrightarrow>
      Api_init user key secret =
        Inl (InvalidCredentialsError ''API key and secret cannot be empty.''))
   \<and> (key \<noteq> [] \<and> secret \<noteq> [] \<and> (length key < 20 \<or> length secret < 20) \<longrightarrow>
      Api_init user key secret =
        Inl (InvalidCredentialsError
               ''API key or secret length is too short. Check if they are correct.''))
   \<and> (20 \<le> length key \<and> 20 \<le> length secret \<longrightarrow>
      Api_init user key secret =
        Inr \<lparr>username = user, api_key = key, api_secret = secret,
             session = create_session_with_retries 3 (3 / 10)\<rparr>)"
  by (auto simp: Api_init_def validate_api_credentials_def)

theorem Api_init_credentials_witness:
  "Api_init ''user'' [] ''ssssssssssssssssssss'' =
     Inl (InvalidCredentialsError ''API key and secret cannot be empty.'')
   \<and> Api_init ''user'' ''kkkkkkkkkkkkkkkkkkk'' ''ssssssssssssssssssss'' =
     Inl (InvalidCredentialsError
            ''API key or secret length is too short. Check if they are correct.'')
   \<and> Api_init ''user'' ''kkkkkkkkkkkkkkkkkkkk'' ''ssssssssssssssssssss'' = Inr example_api
   \<and> length (api_key example_api) \<noteq> API_KEY_LENGTH
   \<and> length (api_secret example_api) \<noteq> API_SECRET_LENGTH"
  using Api_init_credentials [of "[]" "''ssssssssssssssssssss''" "''user''"]
    Api_init_credentials [of "''kkkkkkkkkkkkkkkkkkk''" "''ssssssssssssssssssss''" "''user''"]
    Api_init_credentials [of "''kkkkkkkkkkkkkkkkkkkk''" "''ssssssssssssssssssss''" "''user''"]
  by (simp add: example_api_def API_KEY_LENGTH_def API_SECRET_LENGTH_def)

subsection \<open>Classification of responses\<close>

text \<open>
  C4. When the session answers a call with a response whose body decodes to a JSON object
  with a top-level \<open>error\<close> key, the call raises \<open>ApiResponseError\<close> carrying the
  response's status code, the value under \<open>error\<close> as message and the decoded body as
  data, whatever the status code is, a 2xx one included.
\<close>

theorem api_request_error_key:
  assumes "net w (length (sent w)) = (\<lambda>req. Inr r)"
    and "json r = Inr (PDict d)"
    and "map_of d ''error'' = Some v"
  shows "fst (api_request self command params market private method w) =
           Inl (ApiResponseError (status_code r) v (PDict d))"
  using assms
  by (simp add: api_request_def params_or_empty_def new_dict_def fresh_nonce_def time_time_def
      session_send_def Let_def raise_for_status_def response_json_def dict_contains_def
      ApiResponseError_from_response_def dict_get_def
      split: option.splits prod.splits)

theorem api_request_error_key_witness:
  "fst (api_request example_api ''open_orders'' None [] True ''POST''
          (example_world same_millisecond (\<lambda>req. Inr no_active_orders))) =
     Inl (ApiResponseError 200 (PStr ''no active orders'')
            (PDict [(''error'', PStr ''no active orders'')]))"
  using api_request_error_key [of "example_world same_millisecond (\<lambda>req. Inr no_active_orders)"
      no_active_orders "[(''error'', PStr ''no active orders'')]" "PStr ''no active orders''"
      example_api "''open_orders''" None "[]" True "''POST''"]
  by (simp add: example_world_def no_active_orders_def)

text \<open>
  C7 as stated fails on the letter of the message: the response 200 with the plain-text
  body \<open>OK\<close> does not raise an error whose message is \<open>invalid JSON response\<close>.
\<close>

theorem invalid_json_message_counterexample:
  "fst (api_request example_api ''ticker/BTC/USD'' None ''BTC/USD'' False ''GET''
          (example_world same_millisecond (\<lambda>req. Inr plain_ok))) \<noteq>
     Inl (ApiResponseError 200 (PStr ''invalid JSON response'') PNone)"
  by (simp add: api_request_def params_or_empty_def new_dict_def session_send_def
      example_world_def plain_ok_def raise_for_status_def response_json_def Let_def)

text \<open>
  C7, amended. When the session answers a call with a response whose status is not a
  client or server error (below 400 or from 600 on, so every 2xx status) and whose body is
  not valid JSON, the call raises \<open>ApiResponseError\<close> with that status code, the fixed
  message \<open>Invalid JSON response\<close> (capital I) and no data (\<open>None\<close>).
\<close>

theorem api_request_invalid_json:
  assumes "net w (length (sent w)) = (\<lambda>req. Inr r)"
    and "status_code r < 400 \<or> 600 \<le> status_code r"
    and "json r = Inl m"
  shows "fst (api_request self command params market private method w) =
           Inl (ApiResponseError (status_code r) (PStr ''Invalid JSON response'') PNone)"
  using assms(1,3) raise_for_status_None [OF assms(2)]
  by (simp add: api_request_def params_or_empty_def new_dict_def fresh_nonce_def time_time_def
      session_send_def Let_def response_json_def
      split: option.splits prod.splits)

theorem api_request_invalid_json_witness:
  "fst (api_request example_api ''ticker/BTC/USD'' None ''BTC/USD'' False ''GET''
          (example_world same_millisecond (\<lambda>req. Inr plain_ok))) =
     Inl (ApiResponseError 200 (PStr ''Invalid JSON response'') PNone)"
  using api_request_invalid_json [of "example_world same_millisecond (\<lambda>req. Inr plain_ok)"
      plain_ok "''Expecting value: line 1 column 1 (char 0)''"
      example_api "''ticker/BTC/USD''" None "''BTC/USD''" False "''GET''"]
  by (simp add: example_world_def plain_ok_def)

subsection \<open>The historical OHLCV path\<close>

text \<open>
  C8. The historical path does not classify as the standard path does. A 404 response
  with a JSON error body raises \<open>NetworkError\<close> there, where \<open>Api._api_request\<close> raises
  \<open>ApiResponseError\<close> with status 404; a 200 response whose body has an \<open>error\<close> key is
  returned as a result, where the standard path raises \<open>ApiResponseError\<close>; a 200 response
  with a body that is not JSON raises \<open>NetworkError\<close> (with \<open>requests\<close> from 2.27 on, whose
  \<open>JSONDecodeError\<close> is a \<open>RequestException\<close>), where the standard path raises the
  \<open>Invalid JSON response\<close> error.
\<close>

theorem historical_ohlcv_misclassifies:
  "fst (historical_ohlcv example_api ''20240101'' ''BTC'' ''USD''
          (example_world same_millisecond (\<lambda>req. Inr not_found))) =
     Inl (NetworkError (''An error occurred while fetching historical OHLCV data: ''
            @ ''404 Client Error: Not Found for url: ''
            @ ''https://cex.io/api/ohlcv/hd/20240101/BTC/USD''))
   \<and> fst (api_request example_api ''ohlcv/hd/20240101/BTC'' None ''USD'' False ''GET''
          (example_world same_millisecond (\<lambda>req. Inr not_found))) =
     Inl (ApiResponseError 404 (PStr ''Not found'') (PDict [(''error'', PStr ''Not found'')]))
   \<and> fst (historical_ohlcv example_api ''20240101'' ''BTC'' ''USD''
          (example_world same_millisecond (\<lambda>req. Inr no_active_orders))) =
     Inr (PDict [(''error'', PStr ''no active orders'')])
   \<and> fst (historical_ohlcv example_api ''20240101'' ''BTC'' ''USD''
          (example_world same_millisecond (\<lambda>req. Inr plain_ok))) =
     Inl (NetworkError (''An error occurred while fetching historical OHLCV data: ''
            @ ''Expecting value: line 1 column 1 (char 0)''))"
  by (simp add: historical_ohlcv_def api_request_def params_or_empty_def new_dict_def
      session_send_def example_world_def not_found_def no_active_orders_def plain_ok_def
      raise_for_status_def response_json_def ApiResponseError_from_response_def dict_get_def
      str_int_def str_nat.simps Let_def)

subsection \<open>Authentication fields of outgoing requests\<close>

text \<open>
  C3 as stated fails for a public call: a caller may hand \<open>public_api_call\<close> a dict that
  holds \<open>key\<close>, \<open>signature\<close> and \<open>nonce\<close>, and the request goes out with all three.
\<close>

theorem public_call_carries_caller_fields_counterexample:
  "dict_contains ''key''
     (request_args (last (sent (snd
        (public_api_call example_api ''ticker/BTC/USD'' ''BTC/USD'' (Some 0)
           caller_auth_world)))))
   \<and> dict_contains ''signature''
     (request_args (last (sent (snd
        (public_api_call example_api ''ticker/BTC/USD'' ''BTC/USD'' (Some 0)
           caller_auth_world)))))
   \<and> dict_contains ''nonce''
     (request_args (last (sent (snd
        (public_api_call example_api ''ticker/BTC/USD'' ''BTC/USD'' (Some 0)
           caller_auth_world)))))"
  by (simp add: public_api_call_def api_call_def api_request_public_args caller_dict_def
      caller_auth_world_def dict_contains_def)

text \<open>
  C3, amended. Every call of \<open>Api._api_request\<close> hands exactly one request to the session.
  When the call is private, the parameters of that request hold the client's key under
  \<open>key\<close>, a nonce made during the call under \<open>nonce\<close> and the signature of that nonce under
  \<open>signature\<close>, whatever the caller supplied under these keys; the check after the
  injection passes; and each of the three keys has exactly one entry (the caller's dict
  having one entry per key, as every dict has). When the call is public, the parameters of
  the request are the caller's own, unchanged (empty for \<open>None\<close>): nothing is injected, so
  they hold an authentication field only where the caller supplied it.
\<close>

theorem api_request_auth_fields:
  "(let w' = snd (api_request self command params market True method w);
        args = request_args (last (sent w'));
        nonce = fst (fresh_nonce w)
    in sent w' = sent w @ [last (sent w')]
       \<and> map_of args ''key'' = Some (PStr (api_key self))
       \<and> map_of args ''signature'' = Some (PStr (create_signature self nonce))
       \<and> map_of args ''nonce'' = Some (PStr nonce)
       \<and> validate_params [''nonce'', ''key'', ''signature''] args = Inr ()
       \<and> (distinct (map fst (caller_dict params w)) \<longrightarrow>
            count_key ''key'' args = 1 \<and> count_key ''signature'' args = 1
            \<and> count_key ''nonce'' args = 1))
   \<and> (let w' = snd (api_request self command params market False method w)
       in sent w' = sent w @ [last (sent w')]
          \<and> request_args (last (sent w')) = caller_dict params w)"
proof -
  let ?n = "str_int (millis_at w (ticks w))"
  let ?args = "dict_update (caller_dict params w) (auth_fields self ?n)"
  have keys: "''key'' \<in> fst ` set ?args" "''signature'' \<in> fst ` set ?args"
    "''nonce'' \<in> fst ` set ?args"
    by (simp_all add: dict_update_def auth_fields_def keys_setitem)
  have "distinct (map fst (caller_dict params w)) \<Longrightarrow>
          count_key ''key'' ?args = 1 \<and> count_key ''signature'' ?args = 1
          \<and> count_key ''nonce'' ?args = 1"
    using keys by (simp add: count_key_distinct distinct_dict_update_auth)
  moreover have "validate_params [''nonce'', ''key'', ''signature''] ?args = Inr ()"
    by (simp add: auth_fields_def)
  ultimately show ?thesis
    using api_request_sent [of self command params market True "method" w]
      api_request_sent [of self command params market False "method" w]
    by (simp add: Let_def api_request_private_args api_request_public_args fresh_nonce_eq
        dict_update_auth)
qed

theorem api_request_auth_fields_witness:
  "count_key ''key''
     (request_args (last (sent (snd
        (api_request example_api ''get_address'' (Some 0) [] True ''POST''
           caller_auth_world))))) = 1
   \<and> map_of
       (request_args (last (sent (snd
          (api_request example_api ''get_address'' (Some 0) [] True ''POST''
             caller_auth_world))))) ''key'' = Some (PStr ''kkkkkkkkkkkkkkkkkkkk'')
   \<and> request_args (last (sent (snd
        (api_request example_api ''ticker/BTC/USD'' (Some 0) ''BTC/USD'' False ''GET''
           (example_world same_millisecond (\<lambda>req. Inr no_active_orders)))))) =
       [(''amnt'', PInt 5)]"
  using api_request_auth_fields [of example_api "''get_address''" "Some 0" "[]" "''POST''"
      caller_auth_world]
    api_request_auth_fields [of example_api "''ticker/BTC/USD''" "Some 0" "''BTC/USD''" "''GET''"
      "example_world same_millisecond (\<lambda>req. Inr no_active_orders)"]
  by (simp add: Let_def caller_dict_def caller_auth_world_def example_world_def example_api_def)

text \<open>
  C9. In the request a private call sends, the signature is the signature of the nonce
  sent with it. This holds for \<open>Api._api_request\<close> and \<open>private_api_call\<close> whatever the
  caller's dict holds, and for \<open>get_crypto_address\<close> and \<open>get_all_crypto_addresses\<close>, whose
  own nonce and signature (made from the first clock reading) are both overwritten: the
  nonce sent comes from the second reading.
\<close>

theorem signature_nonce_binding:
  "signature_matches_nonce self
     (last (sent (snd (api_request self command params market True method w))))
   \<and> signature_matches_nonce self (last (sent (snd (private_api_call self command params w))))
   \<and> signature_matches_nonce self (last (sent (snd (get_crypto_address self currency w))))
   \<and> signature_matches_nonce self (last (sent (snd (get_all_crypto_addresses self currency w))))
   \<and> map_of (request_args (last (sent (snd (get_crypto_address self currency w))))) ''nonce'' =
       Some (PStr (str_int (millis_at w (Suc (ticks w)))))
   \<and> map_of (request_args (last (sent (snd (get_all_crypto_addresses self currency w)))))
         ''nonce'' =
       Some (PStr (str_int (millis_at w (Suc (ticks w)))))"
  by (simp add: signature_matches_nonce_def private_api_call_def api_call_def
      get_crypto_address_def get_all_crypto_addresses_def fresh_nonce_eq new_dict_def
      api_request_private_args dict_update_auth millis_at_def Let_def)

subsection \<open>The caller's dict\<close>

text \<open>
  C10. A private call given the address of a non-empty dict updates that very dict: after
  the call, whatever its result, the dict holds its old entries and in addition the key,
  the signature and the nonce, no dict has been created, and the dict sent is the caller's.
  Given the address of an empty dict, the call creates a new dict for the three fields and
  sends that one; the caller's dict is still empty.
\<close>

theorem api_request_params_aliasing:
  "(cells w a \<noteq> [] \<longrightarrow>
      (let w' = snd (api_request self command (Some a) market True method w)
       in cells w' = (cells w)(a := dict_update (cells w a) (auth_fields self (fst (fresh_nonce w))))
          \<and> map_of (cells w' a) =
              (map_of (cells w a))
                (''key'' \<mapsto> PStr (api_key self),
                 ''signature'' \<mapsto> PStr (create_signature self (fst (fresh_nonce w))),
                 ''nonce'' \<mapsto> PStr (fst (fresh_nonce w)))
          \<and> next_addr w' = next_addr w
          \<and> request_args (last (sent w')) = cells w' a))
   \<and> (cells w a = [] \<and> a < next_addr w \<longrightarrow>
      (let w' = snd (api_request self command (Some a) market True method w)
       in cells w' = (cells w)(next_addr w := auth_fields self (fst (fresh_nonce w)))
          \<and> cells w' a = []
          \<and> next_addr w' = Suc (next_addr w)
          \<and> request_args (last (sent w')) = cells w' (next_addr w)))"
  by (simp add: Let_def api_request_private_cells api_request_private_next_addr
      api_request_private_args caller_dict_def fresh_nonce_eq dict_update_auth
      dict_update_Nil_auth)

theorem api_request_params_aliasing_witness:
  "map_of (cells (snd (api_request example_api ''convert/BTC/USD'' (Some 0) [] True ''POST''
             (example_world same_millisecond (\<lambda>req. Inr no_active_orders)))) 0) ''amnt'' =
     Some (PInt 5)
   \<and> map_of (cells (snd (api_request example_api ''convert/BTC/USD'' (Some 0) [] True ''POST''
             (example_world same_millisecond (\<lambda>req. Inr no_active_orders)))) 0) ''key'' =
     Some (PStr ''kkkkkkkkkkkkkkkkkkkk'')
   \<and> cells (snd (api_request example_api ''balance'' (Some 1) [] True ''POST''
             (example_world same_millisecond (\<lambda>req. Inr no_active_orders)))) 1 = []
   \<and> map_of (cells (snd (api_request example_api ''balance'' (Some 1) [] True ''POST''
             (example_world same_millisecond (\<lambda>req. Inr no_active_orders)))) 2) ''key'' =
     Some (PStr ''kkkkkkkkkkkkkkkkkkkk'')"
  using api_request_params_aliasing [of
      "example_world same_millisecond (\<lambda>req. Inr no_active_orders)" 0 example_api
      "''convert/BTC/USD''" "[]" "''POST''"]
    api_request_params_aliasing [of
      "example_world same_millisecond (\<lambda>req. Inr no_active_orders)" 1 example_api
      "''balance''" "[]" "''POST''"]
  by (simp add: Let_def example_world_def example_api_def auth_fields_def dict_update_def)

subsection \<open>The signer\<close>

lemma upper_hex_digits: "map upper_char ''0123456789abcdef'' = ''0123456789ABCDEF''"
  by (simp add: upper_char_def char_of_eq_iff)

lemma upper_hex_digit:
  assumes "i < 16"
  shows "upper_char (''0123456789abcdef'' ! i) = ''0123456789ABCDEF'' ! i"
proof -
  have "i < length ''0123456789abcdef''"
    using assms by simp
  then have "upper_char (''0123456789abcdef'' ! i) = map upper_char ''0123456789abcdef'' ! i"
    by (rule nth_map [symmetric])
  then show ?thesis
    by (simp only: upper_hex_digits)
qed

lemma byte_nibbles: "unat (b :: byte) div 16 < 16" "unat b mod 16 < 16"
proof -
  have "unat b < 256"
    using unsigned_less [of b] by simp
  then show "unat b div 16 < 16" by simp
  show "unat b mod 16 < 16" by simp
qed

lemma upper_hexdigest: "upper (hexdigest bs) = hex_upper bs"
  by (induction bs) (simp_all add: upper_def hexdigest_def hex_upper_def upper_hex_digit byte_nibbles)

lemma hex_digit_inj:
  assumes "i < 16" "j < 16" "''0123456789ABCDEF'' ! i = ''0123456789ABCDEF'' ! j"
  shows "i = j"
proof -
  have "distinct ''0123456789ABCDEF''" by simp
  moreover have "i < length ''0123456789ABCDEF''" "j < length ''0123456789ABCDEF''"
    using assms by simp_all
  ultimately show ?thesis
    using assms(3) nth_eq_iff_index_eq by blast
qed

lemma hex_byte_inj:
  fixes a b :: byte
  assumes "''0123456789ABCDEF'' ! (unat a div 16) = ''0123456789ABCDEF'' ! (unat b div 16)"
    and "''0123456789ABCDEF'' ! (unat a mod 16) = ''0123456789ABCDEF'' ! (unat b mod 16)"
  shows "a = b"
proof -
  have "unat a div 16 = unat b div 16"
    using assms(1) byte_nibbles by (intro hex_digit_inj) auto
  moreover have "unat a mod 16 = unat b mod 16"
    using assms(2) byte_nibbles by (intro hex_digit_inj) auto
  ultimately have "unat a = unat b"
    by (metis div_mult_mod_eq)
  then show ?thesis
    by (simp add: word_unat_eq_iff)
qed

lemma hex_upper_inj: "hex_upper xs = hex_upper ys \<Longrightarrow> xs = ys"
proof (induction xs arbitrary: ys)
  case Nil
  then show ?case by (cases ys) (simp_all add: hex_upper_def)
next
  case (Cons x xs)
  then obtain y ys' where ys: "ys = y # ys'"
    by (cases ys) (simp_all add: hex_upper_def)
  with Cons.prems have "x = y" and "hex_upper xs = hex_upper ys'"
    by (simp_all add: hex_upper_def hex_byte_inj)
  with Cons.IH ys show ?case by simp
qed

lemma unat_encode_utf8_char:
  "map unat (encode_utf8_char c) =
     (if (of_char c :: nat) < 128 then [of_char c]
      else [192 + of_char c div 64, 128 + of_char c mod 64])"
proof -
  have "(of_char c :: nat) < 256" by simp
  then have "192 + (of_char c :: nat) div 64 < 256" and "128 + (of_char c :: nat) mod 64 < 256"
    by arith+
  then have "(192 + (of_char c :: nat) div 64) mod 256 = 192 + of_char c div 64"
    and "(128 + (of_char c :: nat) mod 64) mod 256 = 128 + of_char c mod 64"
    by (simp_all only: mod_less)
  then show ?thesis
    by (simp add: encode_utf8_char_def Let_def unat_of_nat del: of_nat_add of_nat_numeral)
qed

lemma encode_utf8_char_inj:
  assumes "encode_utf8_char c @ xs = encode_utf8_char d @ ys"
  shows "c = d \<and> xs = ys"
proof -
  let ?n = "of_char c :: nat" and ?m = "of_char d :: nat"
  have bounds: "?n < 256" "?m < 256" by simp_all
  from assms have "map unat (encode_utf8_char c @ xs) = map unat (encode_utf8_char d @ ys)"
    by simp
  then have eq:
    "(if ?n < 128 then [?n] else [192 + ?n div 64, 128 + ?n mod 64]) @ map unat xs =
     (if ?m < 128 then [?m] else [192 + ?m div 64, 128 + ?m mod 64]) @ map unat ys"
    by (simp only: map_append unat_encode_utf8_char)
  have "?n = ?m"
  proof (cases "?n < 128"; cases "?m < 128")
    assume "?n < 128" "?m < 128"
    with eq show ?thesis by simp
  next
    assume "?n < 128" "\<not> ?m < 128"
    with eq have "?n = 192 + ?m div 64" by simp
    with \<open>?n < 128\<close> show ?thesis by simp
  next
    assume "\<not> ?n < 128" "?m < 128"
    with eq have "192 + ?n div 64 = ?m" by simp
    with \<open>?m < 128\<close> show ?thesis by simp
  next
    assume "\<not> ?n < 128" "\<not> ?m < 128"
    with eq have "?n div 64 = ?m div 64" "?n mod 64 = ?m mod 64"
      by simp_all
    then show ?thesis by (metis div_mult_mod_eq)
  qed
  then have "c = d" by simp
  with assms show ?thesis by simp
qed

lemma encode_utf8_char_not_Nil: "encode_utf8_char c \<noteq> []"
  by (simp add: encode_utf8_char_def Let_def)

lemma encode_utf8_inj: "encode_utf8 s = encode_utf8 t \<Longrightarrow> s = t"
proof (induction s arbitrary: t)
  case Nil
  then show ?case
    by (cases t) (simp_all add: encode_utf8_def encode_utf8_char_not_Nil)
next
  case (Cons c s)
  then obtain d t' where t: "t = d # t'"
    by (cases t) (simp_all add: encode_utf8_def encode_utf8_char_not_Nil)
  with Cons.prems have "encode_utf8_char c @ encode_utf8 s = encode_utf8_char d @ encode_utf8 t'"
    by (simp add: encode_utf8_def)
  then have "c = d" "encode_utf8 s = encode_utf8 t'"
    using encode_utf8_char_inj by blast+
  with Cons.IH t show ?case by simp
qed

lemma hmac_digest_nul_suffix:
  assumes "length key < 64"
  shows "hmac_digest (key @ [0]) msg = hmac_digest key msg"
proof -
  have "ljust (key @ [0]) 64 0 = key @ replicate (Suc (63 - length key)) 0"
    by (simp add: ljust_def)
  also have "Suc (63 - length key) = 64 - length key"
    using assms by simp
  finally have "ljust (key @ [0]) 64 0 = ljust key 64 0"
    by (simp add: ljust_def)
  with assms show ?thesis
    by (simp add: hmac_digest_def)
qed

text \<open>
  C1 as stated fails in its last part: a change of one input need not change the
  signature. HMAC pads a key shorter than its block of 64 bytes with zero bytes, so a
  secret and the same secret followed by the character U+0000 give the same signature
  for every nonce. Both secrets pass the credential check.
\<close>

theorem signature_collision_counterexample:
  "api_secret example_api \<noteq> api_secret (example_api\<lparr>api_secret := ''ssssssssssssssssssss'' @ [CHR 0x00]\<rparr>)
   \<and> username example_api = username (example_api\<lparr>api_secret := ''ssssssssssssssssssss'' @ [CHR 0x00]\<rparr>)
   \<and> api_key example_api = api_key (example_api\<lparr>api_secret := ''ssssssssssssssssssss'' @ [CHR 0x00]\<rparr>)
   \<and> create_signature example_api ''1700000000000'' =
       create_signature (example_api\<lparr>api_secret := ''ssssssssssssssssssss'' @ [CHR 0x00]\<rparr>)
         ''1700000000000''"
proof -
  have enc: "encode_utf8 (''ssssssssssssssssssss'' @ [CHR 0x00]) =
               encode_utf8 ''ssssssssssssssssssss'' @ [0]"
    by (simp add: encode_utf8_def encode_utf8_char_def)
  have len: "length (encode_utf8 ''ssssssssssssssssssss'') < 64"
    by (simp add: encode_utf8_def encode_utf8_char_def)
  show ?thesis
    by (simp add: example_api_def create_signature_def del: append.simps)
      (simp only: enc hmac_digest_nul_suffix [OF len])
qed

text \<open>
  C1, amended. The signer returns exactly what the specification's signer returns: the
  uppercase hexadecimal rendering of the HMAC-SHA256, keyed by the UTF-8 bytes of the
  secret, of the UTF-8 bytes of \<open>nonce + identifier + key\<close>. It is a function of these
  four strings alone, and two invocations give the same signature exactly when their
  HMAC digests are the same. A change of the nonce, of the identifier or of the key alone
  always changes the message that is signed, and a change of the secret always changes
  the key bytes handed to HMAC; whether the digest, and with it the signature, changes
  is then a matter of HMAC-SHA256 and is not guaranteed.
\<close>

theorem create_signature_spec:
  "create_signature self nonce = sign_spec nonce (username self) (api_key self) (api_secret self)
   \<and> (create_signature self nonce = create_signature self' nonce' \<longleftrightarrow>
        hmac_digest (encode_utf8 (api_secret self))
          (encode_utf8 (nonce @ username self @ api_key self)) =
        hmac_digest (encode_utf8 (api_secret self'))
          (encode_utf8 (nonce' @ username self' @ api_key self')))
   \<and> (nonce \<noteq> nonce' \<longrightarrow>
        encode_utf8 (nonce @ username self @ api_key self) \<noteq>
        encode_utf8 (nonce' @ username self @ api_key self))
   \<and> (username self \<noteq> identifier' \<longrightarrow>
        encode_utf8 (nonce @ username self @ api_key self) \<noteq>
        encode_utf8 (nonce @ identifier' @ api_key self))
   \<and> (api_key self \<noteq> key' \<longrightarrow>
        encode_utf8 (nonce @ username self @ api_key self) \<noteq>
        encode_utf8 (nonce @ username self @ key'))
   \<and> (api_secret self \<noteq> secret' \<longrightarrow>
        encode_utf8 (api_secret self) \<noteq> encode_utf8 secret')"
proof -
  have "create_signature self nonce =
          sign_spec nonce (username self) (api_key self) (api_secret self)"
    by (simp add: create_signature_def sign_spec_def upper_hexdigest)
  moreover have "create_signature self nonce = create_signature self' nonce' \<longleftrightarrow>
        hmac_digest (encode_utf8 (api_secret self))
          (encode_utf8 (nonce @ username self @ api_key self)) =
        hmac_digest (encode_utf8 (api_secret self'))
          (encode_utf8 (nonce' @ username self' @ api_key self'))"
    by (auto simp: create_signature_def upper_hexdigest dest: hex_upper_inj)
  ultimately show ?thesis
    by (auto dest: encode_utf8_inj)
qed


theorem create_signature_spec_witness:
  "create_signature example_api ''1700000000000'' =
     sign_spec ''1700000000000'' ''user'' ''kkkkkkkkkkkkkkkkkkkk'' ''ssssssssssssssssssss''
   \<and> encode_utf8 (''1700000000000'' @ ''user'' @ ''kkkkkkkkkkkkkkkkkkkk'') \<noteq>
       encode_utf8 (''1700000000001'' @ ''user'' @ ''kkkkkkkkkkkkkkkkkkkk'')
   \<and> encode_utf8 (''1700000000000'' @ ''user'' @ ''kkkkkkkkkkkkkkkkkkkk'') \<noteq>
       encode_utf8 (''1700000000000'' @ ''resu'' @ ''kkkkkkkkkkkkkkkkkkkk'')
   \<and> encode_utf8 (''1700000000000'' @ ''user'' @ ''kkkkkkkkkkkkkkkkkkkk'') \<noteq>
       encode_utf8 (''1700000000000'' @ ''user'' @ ''kkkkkkkkkkkkkkkkkkkK'')
   \<and> encode_utf8 ''ssssssssssssssssssss'' \<noteq> encode_utf8 ''ssssssssssssssssssss0''"
  using create_signature_spec [where self = example_api and nonce = "''1700000000000''"
      and self' = example_api and nonce' = "''1700000000001''" and identifier' = "''resu''"
      and key' = "''kkkkkkkkkkkkkkkkkkkK''" and secret' = "''ssssssssssssssssssss0''"]
  by (simp add: example_api_def)

subsection \<open>The session's retries\<close>























subsection \<open>Nonces of successive calls\<close>

lemma digit_value:
  assumes "d < 10"
  shows "(of_char (''0123456789'' ! d) :: nat) = 48 + d"
proof -
  from assms have "d = 0 \<or> d = 1 \<or> d = 2 \<or> d = 3 \<or> d = 4 \<or> d = 5 \<or> d = 6 \<or> d = 7
      \<or> d = 8 \<or> d = 9"
    by arith
  then show ?thesis
    by (elim disjE) simp_all
qed

lemma parse_nat_snoc: "parse_nat (s @ [c]) = 10 * parse_nat s + (of_char c - 48)"
  by (simp add: parse_nat_def)

lemma parse_nat_str_nat: "parse_nat (str_nat n) = n"
proof (induction n rule: str_nat.induct)
  case (1 n)
  show ?case
  proof (cases "n < 10")
    case True
    then show ?thesis
      by (simp add: str_nat.simps [of n] parse_nat_def digit_value)
  next
    case False
    with 1 have "parse_nat (str_nat (n div 10)) = n div 10"
      by simp
    moreover have "(of_char (''0123456789'' ! (n mod 10)) :: nat) - 48 = n mod 10"
      by (simp add: digit_value)
    ultimately show ?thesis
      using False by (simp add: str_nat.simps [of n] parse_nat_snoc)
  qed
qed

lemma str_nat_first:
  "str_nat n \<noteq> [] \<and> hd (str_nat n) \<in> set ''0123456789''"
proof (induction n rule: str_nat.induct)
  case (1 n)
  show ?case
  proof (cases "n < 10")
    case True
    then have "''0123456789'' ! n \<in> set ''0123456789''"
      by (intro nth_mem) simp
    with True show ?thesis
      by (simp add: str_nat.simps [of n])
  next
    case False
    with 1 show ?thesis
      by (simp add: str_nat.simps [of n])
  qed
qed

lemma parse_int_str_int: "parse_int (str_int i) = i"
proof (cases "i < 0")
  case True
  then show ?thesis
    by (simp add: str_int_def parse_int_def parse_nat_str_nat)
next
  case False
  obtain c ds where s: "str_nat (nat i) = c # ds"
    using str_nat_first [of "nat i"] by (cases "str_nat (nat i)") auto
  with str_nat_first [of "nat i"] have "c \<noteq> CHR ''-''"
    by auto
  moreover have "parse_nat (c # ds) = nat i"
    using parse_nat_str_nat [of "nat i"] s by simp
  ultimately show ?thesis
    using False s by (simp add: str_int_def parse_int_def)
qed

lemma int_of_float_mono: "x \<le> y \<Longrightarrow> int_of_float x \<le> int_of_float y"
proof -
  assume le: "x \<le> y"
  show ?thesis
  proof (cases "y < 0")
    case True
    with le have "\<lfloor>- y\<rfloor> \<le> \<lfloor>- x\<rfloor>"
      by (intro floor_mono) simp
    with True le show ?thesis
      by (simp add: int_of_float_def)
  next
    case False
    show ?thesis
    proof (cases "x < 0")
      case True
      then have "0 \<le> \<lfloor>- x\<rfloor>" by simp
      moreover from False have "0 \<le> \<lfloor>y\<rfloor>" by simp
      moreover have "int_of_float x = - \<lfloor>- x\<rfloor>" "int_of_float y = \<lfloor>y\<rfloor>"
        using True False by (simp_all add: int_of_float_def)
      ultimately show ?thesis
        by linarith
    next
      case x: False
      with False le show ?thesis
        by (simp add: int_of_float_def floor_mono)
    qed
  qed
qed

lemma millis_at_mono:
  assumes "mono (clock w)" and "mono (\<lambda>x. float_mul w x 1000)" and "i \<le> j"
  shows "millis_at w i \<le> millis_at w j"
proof -
  from assms(1,3) have "clock w i \<le> clock w j"
    by (rule monoD)
  with assms(2) have "float_mul w (clock w i) 1000 \<le> float_mul w (clock w j) 1000"
    by (auto dest: monoD)
  then show ?thesis
    by (simp add: millis_at_def int_of_float_mono)
qed

lemma request_nonce_private:
  "request_nonce (last (sent (snd (api_request self command params market True method w)))) =
     Some (millis_at w (ticks w))"
  by (simp add: request_nonce_def api_request_private_args dict_update_auth parse_int_str_int)

lemma sent_nonces_snoc:
  "sent w' = sent w @ [req] \<Longrightarrow> request_nonce req = Some n \<Longrightarrow>
     sent_nonces w' = sent_nonces w @ [n]"
  by (simp add: sent_nonces_def List.map_filter_def)

lemma clock_readings_pos: "0 < clock_readings c"
  by (cases c) simp_all

lemma nonce_readings_increasing:
  "sorted_wrt (<) (nonce_readings ops t) \<and> (\<forall>n \<in> set (nonce_readings ops t). t \<le> n)"
proof (induction ops arbitrary: t)
  case Nil
  show ?case by simp
next
  case (Cons c ops)
  from Cons [of "t + clock_readings c"] clock_readings_pos [of c] show ?case
    by fastforce
qed

lemma length_nonce_readings: "length (nonce_readings ops t) = length ops"
  by (induction ops arbitrary: t) simp_all

lemma nonce_param_private:
  "map_of (request_args (last (sent (snd (api_request self command params market True meth w)))))
     ''nonce'' = Some (PStr (str_int (millis_at w (ticks w))))"
  by (simp add: api_request_private_args dict_update_auth)

text \<open>One private operation: one request more, whose nonce is made from the operation's
  last clock reading.\<close>

lemma do_private_op_exact:
  "sent (snd (do_private_op self c w)) = sent w @ [last (sent (snd (do_private_op self c w)))]
   \<and> map_of (request_args (last (sent (snd (do_private_op self c w))))) ''nonce'' =
       Some (PStr (str_int (millis_at w (ticks w + clock_readings c - 1))))
   \<and> ticks (snd (do_private_op self c w)) = ticks w + clock_readings c
   \<and> clock (snd (do_private_op self c w)) = clock w
   \<and> float_mul (snd (do_private_op self c w)) = float_mul w"
proof -
  have direct: "sent (snd (api_request self command params [] True ''POST'' w)) =
        sent w @ [last (sent (snd (api_request self command params [] True ''POST'' w)))]
      \<and> map_of (request_args
            (last (sent (snd (api_request self command params [] True ''POST'' w))))) ''nonce'' =
          Some (PStr (str_int (millis_at w (ticks w))))
      \<and> ticks (snd (api_request self command params [] True ''POST'' w)) = Suc (ticks w)
      \<and> clock (snd (api_request self command params [] True ''POST'' w)) = clock w
      \<and> float_mul (snd (api_request self command params [] True ''POST'' w)) = float_mul w"
    for command params w
    using api_request_sent [of self command params "[]" True "''POST''" w]
    by (simp add: nonce_param_private api_request_env)
  have own: "sent (snd (api_request self command (Some (next_addr w)) [] True ''POST'' w2)) =
        sent w @ [last (sent (snd (api_request self command (Some (next_addr w)) [] True
                                    ''POST'' w2)))]
      \<and> map_of (request_args
            (last (sent (snd (api_request self command (Some (next_addr w)) [] True
                                ''POST'' w2))))) ''nonce'' =
          Some (PStr (str_int (millis_at w (Suc (ticks w)))))
      \<and> ticks (snd (api_request self command (Some (next_addr w)) [] True ''POST'' w2)) =
          Suc (Suc (ticks w))
      \<and> clock (snd (api_request self command (Some (next_addr w)) [] True ''POST'' w2)) = clock w
      \<and> float_mul (snd (api_request self command (Some (next_addr w)) [] True ''POST'' w2)) =
          float_mul w"
    if "w2 = snd (new_dict d (snd (fresh_nonce w)))" for command d w2
  proof -
    from that have w2: "sent w2 = sent w" "ticks w2 = Suc (ticks w)" "clock w2 = clock w"
      "float_mul w2 = float_mul w"
      by (simp_all add: new_dict_def fresh_nonce_eq)
    then have "millis_at w2 = millis_at w"
      by (simp add: millis_at_def fun_eq_iff)
    with direct [of command "Some (next_addr w)" w2] w2 show ?thesis
      by simp
  qed
  show ?thesis
  proof (cases c)
    case (PrivateApiCall command params)
    with direct [of command params w] show ?thesis
      by (simp add: private_api_call_def api_call_def)
  next
    case GetBalance
    with direct [of "''balance''" None w] show ?thesis
      by (simp add: get_balance_def private_api_call_def api_call_def)
  next
    case (GetCryptoAddress currency)
    with own [OF refl, of "''get_address''"] show ?thesis
      by (simp add: get_crypto_address_def private_api_call_def api_call_def new_dict_def
          fresh_nonce_eq Let_def)
  next
    case (GetAllCryptoAddresses currency)
    with own [OF refl, of "''get_crypto_address''"] show ?thesis
      by (simp add: get_all_crypto_addresses_def private_api_call_def api_call_def new_dict_def
          fresh_nonce_eq Let_def)
  qed
qed

lemma private_calls_params:
  "sent_nonce_params (private_calls self ops w) =
     sent_nonce_params w
       @ map (\<lambda>n. Some (PStr (str_int (millis_at w n)))) (nonce_readings ops (ticks w))"
proof (induction ops arbitrary: w)
  case Nil
  show ?case by simp
next
  case (Cons c ops)
  let ?w' = "snd (do_private_op self c w)"
  note step = do_private_op_exact [of self c w]
  have same: "millis_at ?w' = millis_at w"
    using step by (simp add: millis_at_def fun_eq_iff)
  have "sent_nonce_params ?w' =
      sent_nonce_params w @ [Some (PStr (str_int (millis_at w (ticks w + clock_readings c - 1))))]"
  proof -
    have "sent ?w' = sent w @ [last (sent ?w')]"
      using step by blast
    then have "map (\<lambda>req. map_of (request_args req) ''nonce'') (sent ?w') =
        map (\<lambda>req. map_of (request_args req) ''nonce'') (sent w @ [last (sent ?w')])"
      by (rule arg_cong)
    moreover have "map_of (request_args (last (sent ?w'))) ''nonce'' =
        Some (PStr (str_int (millis_at w (ticks w + clock_readings c - 1))))"
      using step by blast
    ultimately show ?thesis
      by (simp add: sent_nonce_params_def)
  qed
  moreover have "ticks ?w' = ticks w + clock_readings c"
    using step by simp
  ultimately show ?case
    using Cons [of ?w'] by (simp add: same)
qed

lemma nonces_of_params:
  assumes "sent_nonce_params w = map (\<lambda>n. Some (PStr (str_int (f n)))) ns"
  shows "sent_nonces w = map f ns"
proof -
  have "sent_nonces w =
      List.map_filter (\<lambda>p. case p of Some (PStr s) \<Rightarrow> Some (parse_int s) | _ \<Rightarrow> None)
        (sent_nonce_params w)"
    by (simp add: sent_nonces_def sent_nonce_params_def request_nonce_def List.map_filter_def
        comp_def filter_map)
  then show ?thesis
    by (simp add: assms List.map_filter_def comp_def filter_map parse_int_str_int)
qed

lemma same_millisecond_millis:
  "millis_at (example_world same_millisecond n) 0 = 1700000000000"
  "millis_at (example_world same_millisecond n) (Suc 0) = 1700000000000"
  by (simp_all add: millis_at_def example_world_def same_millisecond_def int_of_float_def
      floor_eq_iff)


text \<open>
  C2 as stated fails: the nonce of a call need not be strictly greater than the nonce of
  the call before. With a clock that strictly advances, two successive private calls
  whose readings lie in one millisecond send the same nonce.
\<close>

theorem equal_nonces_counterexample:
  "strict_mono same_millisecond
   \<and> sent_nonces (private_calls example_api [GetBalance, GetBalance]
        (example_world same_millisecond (\<lambda>req. Inr no_active_orders))) =
      [1700000000000, 1700000000000]"
proof -
  let ?w = "example_world same_millisecond (\<lambda>req. Inr no_active_orders)"
  let ?w1 = "snd (api_request example_api ''balance'' None [] True ''POST'' ?w)"
  let ?w2 = "snd (api_request example_api ''balance'' None [] True ''POST'' ?w1)"
  have "strict_mono same_millisecond"
    by (simp add: strict_mono_def same_millisecond_def divide_strict_right_mono)
  moreover have "sent_nonces ?w = []"
    by (simp add: sent_nonces_def example_world_def List.map_filter_def)
  then have "sent_nonces ?w1 = [millis_at ?w 0]"
    using sent_nonces_snoc [OF api_request_sent request_nonce_private,
        of example_api "''balance''" None "[]" "''POST''" ?w]
    by (simp add: example_world_def)
  then have "sent_nonces ?w2 = [millis_at ?w 0, millis_at ?w1 (ticks ?w1)]"
    using sent_nonces_snoc [OF api_request_sent request_nonce_private,
        of example_api "''balance''" None "[]" "''POST''" ?w1]
    by simp
  moreover have "millis_at ?w1 (ticks ?w1) = millis_at ?w 1"
    by (simp add: millis_at_def api_request_env example_world_def)
  ultimately show ?thesis
    by (simp add: get_balance_def private_api_call_def api_call_def same_millisecond_millis)
qed

text \<open>
  C2, amended. Every sequence of private calls from one instance sends one nonce per
  call, and each nonce is the decimal string of \<open>int(time.time() * 1000)\<close> for the last
  clock reading the call takes, so the readings behind successive nonces are strictly
  later ones. When the clock never rewinds (and the float product with 1000 is monotone,
  as a rounded product is), each nonce is greater than or equal to every nonce sent
  before it, and the sequence is strictly increasing exactly when no two calls send the
  same nonce. When every later reading gives a later millisecond, each nonce is strictly
  greater than every nonce sent before it.
\<close>

theorem private_calls_nonces:
  assumes "sent w = []"
  shows "sent_nonce_params (private_calls self ops w) =
           map (\<lambda>n. Some (PStr (str_int (millis_at w n)))) (nonce_readings ops (ticks w))
         \<and> sent_nonces (private_calls self ops w) =
             map (millis_at w) (nonce_readings ops (ticks w))
         \<and> length (sent_nonces (private_calls self ops w)) = length ops
         \<and> (mono (clock w) \<and> mono (\<lambda>x. float_mul w x 1000) \<longrightarrow>
              sorted (sent_nonces (private_calls self ops w))
              \<and> (sorted_wrt (<) (sent_nonces (private_calls self ops w))
                   \<longleftrightarrow> distinct (sent_nonces (private_calls self ops w))))
         \<and> (strict_mono (millis_at w) \<longrightarrow>
              sorted_wrt (<) (sent_nonces (private_calls self ops w)))
         \<and> sorted_wrt (<) (nonce_readings ops (ticks w))"
proof -
  let ?ns = "nonce_readings ops (ticks w)"
  have params: "sent_nonce_params (private_calls self ops w) =
      map (\<lambda>n. Some (PStr (str_int (millis_at w n)))) ?ns"
    using private_calls_params [of self ops w] assms by (simp add: sent_nonce_params_def)
  then have nonces: "sent_nonces (private_calls self ops w) = map (millis_at w) ?ns"
    by (rule nonces_of_params)
  have increasing: "sorted_wrt (<) ?ns"
    using nonce_readings_increasing by blast
  have sorted: "sorted (map (millis_at w) ?ns)"
    if "mono (clock w)" "mono (\<lambda>x. float_mul w x 1000)"
  proof -
    have "sorted_wrt (\<lambda>i j. millis_at w i \<le> millis_at w j) ?ns"
      using increasing
      by (rule sorted_wrt_mono_rel [rotated]) (simp add: millis_at_mono [OF that])
    then show ?thesis
      by (simp add: sorted_wrt_map)
  qed
  have strict: "sorted_wrt (<) (map (millis_at w) ?ns)" if "strict_mono (millis_at w)"
  proof -
    have "sorted_wrt (\<lambda>i j. millis_at w i < millis_at w j) ?ns"
      using increasing
      by (rule sorted_wrt_mono_rel [rotated]) (simp add: strict_monoD [OF that])
    then show ?thesis
      by (simp add: sorted_wrt_map)
  qed
  from params nonces sorted strict increasing show ?thesis
    by (auto simp: length_nonce_readings strict_sorted_iff)
qed

theorem private_calls_nonces_witness:
  "sent_nonces (private_calls example_api
      [GetBalance, GetCryptoAddress (PStr ''BTC''), PrivateApiCall ''convert/BTC/USD'' (Some 0)]
      (example_world same_millisecond (\<lambda>req. Inr no_active_orders))) =
     map (millis_at (example_world same_millisecond (\<lambda>req. Inr no_active_orders))) [0, 2, 3]
   \<and> sorted (sent_nonces (private_calls example_api
      [GetBalance, GetCryptoAddress (PStr ''BTC''), PrivateApiCall ''convert/BTC/USD'' (Some 0)]
      (example_world same_millisecond (\<lambda>req. Inr no_active_orders))))
   \<and> sorted_wrt (<) (sent_nonces (private_calls example_api
      [GetBalance, GetCryptoAddress (PStr ''BTC''), PrivateApiCall ''convert/BTC/USD'' (Some 0)]
      (example_world one_second_clock (\<lambda>req. Inr no_active_orders))))"
proof -
  define ops where "ops = [GetBalance, GetCryptoAddress (PStr ''BTC''),
               PrivateApiCall ''convert/BTC/USD'' (Some 0)]"
  define w where "w = example_world same_millisecond (\<lambda>req. Inr no_active_orders)"
  define v where "v = example_world one_second_clock (\<lambda>req. Inr no_active_orders)"
  have w: "sent w = []" "ticks w = 0"
    by (simp_all add: w_def example_world_def)
  have env_mono: "mono (clock w) \<and> mono (\<lambda>x. float_mul w x 1000)"
    by (simp add: w_def example_world_def mono_def same_millisecond_def divide_right_mono)
  have readings: "nonce_readings ops 0 = [0, 2, 3]"
    by (simp add: ops_def)
  note first = private_calls_nonces [of w example_api ops, OF w(1)]
  from first have "sent_nonces (private_calls example_api ops w) =
      map (millis_at w) (nonce_readings ops (ticks w))"
    by (rule conjunct2 [THEN conjunct1])
  with readings w(2) have nonces: "sent_nonces (private_calls example_api ops w) =
      map (millis_at w) [0, 2, 3]"
    by (simp only:)
  from first have "mono (clock w) \<and> mono (\<lambda>x. float_mul w x 1000) \<longrightarrow>
      sorted (sent_nonces (private_calls example_api ops w))
      \<and> (sorted_wrt (<) (sent_nonces (private_calls example_api ops w))
           \<longleftrightarrow> distinct (sent_nonces (private_calls example_api ops w)))"
    by (rule conjunct2 [THEN conjunct2, THEN conjunct2, THEN conjunct1])
  with env_mono have ordered: "sorted (sent_nonces (private_calls example_api ops w))"
    by (rule mp [THEN conjunct1, rotated])
  have "millis_at v i = 1700000000000 + 1000 * int i" for i
  proof -
    have "(1700000000 + of_nat i) * (1000 :: rat) = of_int (1700000000000 + 1000 * int i)"
      by simp
    moreover have "int_of_float (of_int k) = k" for k
      by (simp add: int_of_float_def flip: of_int_minus)
    ultimately have "int_of_float ((1700000000 + of_nat i) * (1000 :: rat)) =
        1700000000000 + 1000 * int i"
      by (simp only:)
    then show ?thesis
      by (simp add: millis_at_def v_def example_world_def one_second_clock_def)
  qed
  then have strict: "strict_mono (millis_at v)"
    by (simp add: strict_mono_def)
  have "sent v = []"
    by (simp add: v_def example_world_def)
  from private_calls_nonces [of v example_api ops, OF this]
  have "strict_mono (millis_at v) \<longrightarrow>
      sorted_wrt (<) (sent_nonces (private_calls example_api ops v))"
    by (rule conjunct2 [THEN conjunct2, THEN conjunct2, THEN conjunct2, THEN conjunct1])
  with strict have "sorted_wrt (<) (sent_nonces (private_calls example_api ops v))"
    by (rule mp [rotated])
  with nonces ordered show ?thesis
    unfolding ops_def w_def v_def by (intro conjI)
qed

end
